theory Spec2Isabelle
  imports Complex_Main "HOL-Library.AList"
begin

section \<open>The retrieval engine of hx365\_rag.py\<close>

text \<open>
  A shallow embedding of the retrieval engine (\<^verbatim>\<open>src/hx365_rag.py\<close>): the context window
  manager, the prose chunker, the fallback encoder, the vector index and the engine that
  composes them.

  Python strings are modelled as \<^typ>\<open>string\<close>; \<^verbatim>\<open>len\<close> is \<^const>\<open>length\<close>, so a
  character of the model is one code point of the source, and the model covers the
  texts whose code points are below 256. Floating-point numbers are modelled by the
  rationals they denote before rounding.
\<close>

subsection \<open>Data model\<close>

text \<open>
  The metadata of a chunk is a \<^verbatim>\<open>Dict[str, Any]\<close>; the values the engine stores are
  integers and strings.
\<close>

datatype meta_value = MInt int | MStr string

type_synonym metadata = "(string \<times> meta_value) list"

type_synonym embedding = "rat list"

text \<open>\<^verbatim>\<open>DocumentChunk\<close>; \<^verbatim>\<open>created_at\<close> is the reading of the clock at construction.\<close>

record DocumentChunk =
  chunk_ident :: string
  chunk_content :: string
  chunk_document_id :: string
  chunk_metadata :: metadata
  chunk_embedding :: "embedding option"
  created_at :: nat

record RetrievedResult =
  result_content :: string
  result_score :: rat
  result_document_id :: string
  result_chunk_id :: string
  result_metadata :: metadata

text \<open>
  A conversation turn is a \<^verbatim>\<open>Dict[str, str]\<close> read only through
  \<^verbatim>\<open>msg.get("role")\<close> and \<^verbatim>\<open>msg.get("content", "")\<close>: either key may be absent.
  Whatever other keys a turn carries are the extension of the record, so that two turns
  are equal, as the dictionaries are, when all their entries agree.
\<close>

record message =
  msg_role :: "string option"
  msg_content :: "string option"

definition get_content :: "'a message_scheme \<Rightarrow> string" where
  "get_content m = (case msg_content m of None \<Rightarrow> [] | Some c \<Rightarrow> c)"

subsection \<open>Context window manager\<close>

text \<open>
  \<^verbatim>\<open>ContextManager\<close>: the budget and the optional tokenizer (an external model, present
  only when its files are on disk; \<^verbatim>\<open>len(tokenizer.encode(text))\<close> is then the count).
\<close>

record ContextManager =
  max_tokens :: int
  tokenizer :: "(string \<Rightarrow> nat) option"

definition count_tokens :: "ContextManager \<Rightarrow> string \<Rightarrow> int" where
  "count_tokens cm text =
     (case tokenizer cm of
        Some tok \<Rightarrow> int (tok text)
      | None \<Rightarrow> int (length text div 4))"

text \<open>\<^verbatim>\<open>list.insert(i, x)\<close> for a non-negative \<open>i\<close>: past the end it appends.\<close>

definition list_insert :: "nat \<Rightarrow> 'a \<Rightarrow> 'a list \<Rightarrow> 'a list" where
  "list_insert i x xs = take i xs @ x # drop i xs"

text \<open>The text whose tokens decide whether anything is cut: every content, each followed by a newline.\<close>

definition total_content ::
  "'a message_scheme list \<Rightarrow> RetrievedResult list option \<Rightarrow> string" where
  "total_content messages retrieved_chunks =
     concat (map (\<lambda>m. get_content m @ [CHR 0x0A]) messages) @
     (case retrieved_chunks of
        None \<Rightarrow> []
      | Some chunks \<Rightarrow> concat (map (\<lambda>c. result_content c @ [CHR 0x0A]) chunks))"

text \<open>The first turn whose role is \<^verbatim>\<open>"system"\<close>, wherever it stands.\<close>

definition find_system :: "'a message_scheme list \<Rightarrow> 'a message_scheme option" where
  "find_system messages = find (\<lambda>m. msg_role m = Some ''system'') messages"

text \<open>
  The loop over \<^verbatim>\<open>reversed(remaining_messages)\<close>: each turn that still fits is inserted at
  index 1 of \<^verbatim>\<open>truncated_messages\<close>; the first that does not fit ends the loop.
\<close>

fun add_recent ::
  "ContextManager \<Rightarrow> 'a message_scheme list \<Rightarrow> 'a message_scheme list \<Rightarrow> int \<Rightarrow>
   'a message_scheme list" where
  "add_recent cm [] truncated current_tokens = truncated"
| "add_recent cm (m # ms) truncated current_tokens =
     (let msg_tokens = count_tokens cm (get_content m) in
      if current_tokens + msg_tokens \<le> max_tokens cm
      then add_recent cm ms (list_insert 1 m truncated) (current_tokens + msg_tokens)
      else truncated)"

definition truncate_context ::
  "ContextManager \<Rightarrow> 'a message_scheme list \<Rightarrow> RetrievedResult list option \<Rightarrow>
   'a message_scheme list" where
  "truncate_context cm messages retrieved_chunks =
     (if messages = [] then messages
      else if count_tokens cm (total_content messages retrieved_chunks) \<le> max_tokens cm
      then messages
      else
        (case find_system messages of
           Some system_msg \<Rightarrow>
             (let remaining_messages = filter (\<lambda>m. m \<noteq> system_msg) messages;
                  truncated_messages =
                    add_recent cm (rev remaining_messages) [system_msg]
                      (count_tokens cm (get_content system_msg));
                  non_system = filter (\<lambda>m. m \<noteq> system_msg) truncated_messages
              in system_msg # rev non_system)
         | None \<Rightarrow>
             rev (add_recent cm (rev messages) [] 0)))"

text \<open>The sum of the per-turn estimates, which is what the loop accumulates.\<close>

definition turn_tokens :: "ContextManager \<Rightarrow> 'a message_scheme list \<Rightarrow> int" where
  "turn_tokens cm ms = sum_list (map (\<lambda>m. count_tokens cm (get_content m)) ms)"

subsection \<open>Strings\<close>

text \<open>
  The characters \<^verbatim>\<open>str.isspace\<close> accepts, which \<^verbatim>\<open>str.strip()\<close> removes and the
  pattern \<^verbatim>\<open>\s\<close> matches.
\<close>

definition is_space :: "char \<Rightarrow> bool" where
  "is_space c \<longleftrightarrow>
     c \<in> set [CHR 0x09, CHR 0x0A, CHR 0x0B, CHR 0x0C, CHR 0x0D, CHR 0x1C, CHR 0x1D,
              CHR 0x1E, CHR 0x1F, CHR 0x20, CHR 0x85, CHR 0xA0]"

definition strip :: "string \<Rightarrow> string" where
  "strip s = rev (dropWhile is_space (rev (dropWhile is_space s)))"

text \<open>\<^verbatim>\<open>sep.join(parts)\<close>.\<close>

fun join :: "string \<Rightarrow> string list \<Rightarrow> string" where
  "join sep [] = []"
| "join sep [x] = x"
| "join sep (x # y # ys) = x @ sep @ join sep (y # ys)"

text \<open>\<^verbatim>\<open>text.split(sep)\<close> for a separator of one character.\<close>

fun split_on :: "char \<Rightarrow> string \<Rightarrow> string list" where
  "split_on sep [] = [[]]"
| "split_on sep (c # cs) =
     (if c = sep then [] # split_on sep cs
      else (case split_on sep cs of
              [] \<Rightarrow> [[c]]
            | l # ls \<Rightarrow> (c # l) # ls))"

definition starts_with :: "string \<Rightarrow> string \<Rightarrow> bool" where
  "starts_with s p \<longleftrightarrow> take (length p) s = p"

text \<open>\<^verbatim>\<open>sub in s\<close>.\<close>

fun contains :: "string \<Rightarrow> string \<Rightarrow> bool" where
  "contains [] sub \<longleftrightarrow> sub = []"
| "contains (c # cs) sub \<longleftrightarrow> starts_with (c # cs) sub \<or> contains cs sub"

text \<open>The character that prints a digit below 16.\<close>

definition digit_char :: "nat \<Rightarrow> char" where
  "digit_char d = ''0123456789abcdef'' ! d"

text \<open>The decimal numeral that an f-string prints for a non-negative integer.\<close>

fun str_nat :: "nat \<Rightarrow> string" where
  "str_nat n = (if n < 10 then [digit_char n] else str_nat (n div 10) @ [digit_char (n mod 10)])"

declare str_nat.simps [simp del]

subsection \<open>Library functions\<close>

text \<open>
  What the engine calls and does not define: the sentence tokenizer of nltk, the MD5
  digest of hashlib (as the number its 16 bytes spell, most significant first), the
  clock read when a chunk is constructed (one reading per chunk, indexed here by the
  number of chunks made before it), the nearest-neighbour search of usearch (over the
  keyed vectors added so far, giving keys with distances), and whether writing the index
  and its sidecar to disk succeeds.
\<close>

record externals =
  sent_tokenize :: "string \<Rightarrow> string list"
  md5_digest :: "string \<Rightarrow> nat"
  clock :: "nat \<Rightarrow> nat"
  usearch_search :: "(nat \<times> embedding) list \<Rightarrow> embedding \<Rightarrow> int \<Rightarrow> (nat \<times> rat) list"
  disk_writable :: bool

text \<open>
  \<^verbatim>\<open>hexdigest()\<close> prints the digest as 32 hexadecimal digits; \<open>hex_digits\<close> are their
  values, so that \<^verbatim>\<open>int(text_hash[i], 16)\<close> is \<open>hex_digits h ! i\<close>.
\<close>

definition hex_digits :: "nat \<Rightarrow> nat list" where
  "hex_digits h = map (\<lambda>i. (h div 16 ^ (31 - i)) mod 16) [0..<32]"

definition hexdigest :: "nat \<Rightarrow> string" where
  "hexdigest h = map digit_char (hex_digits h)"

subsection \<open>Prose chunker\<close>

record SmartChunker =
  chunk_size :: int
  overlap :: int

text \<open>The construction and \<^verbatim>\<open>chunks.append\<close> of lines 97--104 and 119--126.\<close>

definition append_chunk ::
  "externals \<Rightarrow> string \<Rightarrow> DocumentChunk list \<Rightarrow> string \<Rightarrow> string list \<Rightarrow> DocumentChunk list" where
  "append_chunk ext document_id chunks current_chunk current_sentences =
     chunks @
     [\<lparr>chunk_ident = document_id @ ''_chunk_'' @ str_nat (length chunks),
       chunk_content = strip current_chunk,
       chunk_document_id = document_id,
       chunk_metadata = [(''sentence_count'', MInt (int (length current_sentences)))],
       chunk_embedding = None,
       created_at = clock ext (length chunks)\<rparr>]"

text \<open>\<^verbatim>\<open>current_sentences[-2:] if len(current_sentences) >= 2 else current_sentences\<close>.\<close>

definition overlap_tail :: "string list \<Rightarrow> string list" where
  "overlap_tail current_sentences =
     (if 2 \<le> length current_sentences
      then drop (length current_sentences - 2) current_sentences
      else current_sentences)"

text \<open>The loop over the sentences; the state is \<open>(chunks, current_chunk, current_sentences)\<close>.\<close>

fun chunk_sentences ::
  "SmartChunker \<Rightarrow> externals \<Rightarrow> string \<Rightarrow> string list \<Rightarrow>
   DocumentChunk list \<Rightarrow> string \<Rightarrow> string list \<Rightarrow>
   DocumentChunk list \<times> string \<times> string list" where
  "chunk_sentences ch ext document_id [] chunks current_chunk current_sentences =
     (chunks, current_chunk, current_sentences)"
| "chunk_sentences ch ext document_id (sentence # rest) chunks current_chunk current_sentences =
     (let test_chunk =
            (if current_chunk \<noteq> [] then current_chunk @ '' '' @ sentence else sentence)
      in
      if int (length test_chunk) \<le> chunk_size ch
      then chunk_sentences ch ext document_id rest chunks test_chunk
             (current_sentences @ [sentence])
      else
        (let chunks' =
               (if current_sentences \<noteq> []
                then append_chunk ext document_id chunks current_chunk current_sentences
                else chunks)
         in
         if 0 < overlap ch
         then
           (let overlap_sentences = overlap_tail current_sentences;
                overlap_text = join '' '' overlap_sentences
            in chunk_sentences ch ext document_id rest chunks'
                 (overlap_text @ '' '' @ sentence) (overlap_sentences @ [sentence]))
         else chunk_sentences ch ext document_id rest chunks' sentence [sentence]))"

definition chunk_text ::
  "SmartChunker \<Rightarrow> externals \<Rightarrow> string \<Rightarrow> string \<Rightarrow> DocumentChunk list" where
  "chunk_text ch ext text document_id =
     (case chunk_sentences ch ext document_id (sent_tokenize ext text) [] [] [] of
        (chunks, current_chunk, current_sentences) \<Rightarrow>
          if current_sentences \<noteq> []
          then append_chunk ext document_id chunks current_chunk current_sentences
          else chunks)"

text \<open>The number of sentences a chunk records in its metadata.\<close>

definition sentence_count :: "DocumentChunk \<Rightarrow> int option" where
  "sentence_count c =
     (case map_of (chunk_metadata c) ''sentence_count'' of
        Some (MInt n) \<Rightarrow> Some n
      | _ \<Rightarrow> None)"

subsection \<open>Code chunker\<close>

text \<open>
  The characters the pattern \<^verbatim>\<open>\w\<close> matches: letters, digits and other numeric
  characters, and the underscore.
\<close>

definition is_word_char :: "char \<Rightarrow> bool" where
  "is_word_char c \<longleftrightarrow>
     (let n = (of_char c :: nat) in
      (48 \<le> n \<and> n \<le> 57) \<or> (65 \<le> n \<and> n \<le> 90) \<or> n = 95 \<or> (97 \<le> n \<and> n \<le> 122) \<or>
      n = 170 \<or> n = 178 \<or> n = 179 \<or> n = 181 \<or> n = 185 \<or> n = 186 \<or>
      (188 \<le> n \<and> n \<le> 190) \<or> (192 \<le> n \<and> n \<le> 214) \<or> (216 \<le> n \<and> n \<le> 246) \<or>
      248 \<le> n)"

text \<open>
  \<^verbatim>\<open>re.match\<close> of the three patterns of \<^verbatim>\<open>func_patterns\<close>. A keyword starts with
  a letter, so \<^verbatim>\<open>^\s*\<close> takes all the leading white space; no keyword is a prefix of
  another, so at most one alternative applies; what follows the last \<^verbatim>\<open>\s+\<close> or
  \<^verbatim>\<open>\s*\<close> is not white space, so that takes all the white space too.
\<close>

definition match_definition :: "string \<Rightarrow> bool" where
  "match_definition line \<longleftrightarrow>
     (let rest = dropWhile is_space line in
      \<exists>kw \<in> set [''def'', ''class'', ''function'', ''public'', ''private'', ''protected'', ''fn''].
        starts_with rest kw \<and>
        (case drop (length kw) rest of
           [] \<Rightarrow> False
         | c # cs \<Rightarrow> is_space c \<and>
             (case dropWhile is_space cs of [] \<Rightarrow> False | w # _ \<Rightarrow> is_word_char w)))"

definition match_control :: "string \<Rightarrow> bool" where
  "match_control line \<longleftrightarrow>
     (let rest = dropWhile is_space line in
      \<exists>kw \<in> set [''if'', ''for'', ''while'', ''switch''].
        starts_with rest kw \<and>
        (case dropWhile is_space (drop (length kw) rest) of
           [] \<Rightarrow> False
         | c # _ \<Rightarrow> c = CHR ''(''))"

definition match_comment :: "string \<Rightarrow> bool" where
  "match_comment line \<longleftrightarrow>
     (case dropWhile is_space line of
        [] \<Rightarrow> False
      | c # cs \<Rightarrow> c = CHR ''#'' \<and> (case cs of [] \<Rightarrow> False | s # _ \<Rightarrow> is_space s))"

definition is_new_unit :: "string \<Rightarrow> bool" where
  "is_new_unit line \<longleftrightarrow> match_definition line \<or> match_control line \<or> match_comment line"

text \<open>\<^verbatim>\<open>str.lower()\<close> on the characters of the model.\<close>

definition lower_char :: "char \<Rightarrow> char" where
  "lower_char c =
     (let n = (of_char c :: nat) in
      if (65 \<le> n \<and> n \<le> 90) \<or> (192 \<le> n \<and> n \<le> 222 \<and> n \<noteq> 215)
      then char_of (n + 32) else c)"

definition detect_language :: "string \<Rightarrow> string" where
  "detect_language code =
     (let first_few_lines = map lower_char (join [CHR 0x0A] (take 10 (split_on (CHR 0x0A) code))) in
      if contains first_few_lines ''import torch'' \<or> contains first_few_lines ''import tensorflow''
      then ''python_ml''
      else if contains first_few_lines ''def '' \<and> contains first_few_lines ''import ''
      then ''python''
      else if contains first_few_lines ''function '' \<or> contains first_few_lines ''const ''
      then ''javascript''
      else if contains first_few_lines ''public class'' \<or> contains first_few_lines ''private void''
      then ''java''
      else if contains first_few_lines ''#include'' then ''cpp''
      else if contains first_few_lines ''func '' then ''go''
      else if contains first_few_lines ''fn '' \<and> contains first_few_lines ''->'' then ''rust''
      else ''unknown'')"

text \<open>
  The chunk of lines 155--168 and 184--197, appended only when its content is not blank.
\<close>

definition append_code_chunk ::
  "externals \<Rightarrow> string \<Rightarrow> string \<Rightarrow> DocumentChunk list \<Rightarrow> string list \<Rightarrow> int \<Rightarrow> int \<Rightarrow>
   DocumentChunk list" where
  "append_code_chunk ext code document_id chunks current_chunk start_line end_line =
     (let body = join [CHR 0x0A] current_chunk in
      if 0 < length (strip body)
      then chunks @
        [\<lparr>chunk_ident = document_id @ ''_code_chunk_'' @ str_nat (length chunks),
          chunk_content = body,
          chunk_document_id = document_id,
          chunk_metadata =
            [(''start_line'', MInt start_line), (''end_line'', MInt end_line),
             (''language'', MStr (detect_language code))],
          chunk_embedding = None,
          created_at = clock ext (length chunks)\<rparr>]
      else chunks)"

text \<open>
  The loop over \<^verbatim>\<open>enumerate(lines)\<close>: \<open>i\<close> is the index of the line at the head of
  the lines still to read; the state is \<open>(chunks, current_chunk, chunk_start_line)\<close>.
\<close>

fun chunk_lines ::
  "SmartChunker \<Rightarrow> externals \<Rightarrow> string \<Rightarrow> string \<Rightarrow> string list \<Rightarrow> nat \<Rightarrow> string list \<Rightarrow>
   DocumentChunk list \<Rightarrow> string list \<Rightarrow> int \<Rightarrow>
   DocumentChunk list \<times> string list \<times> int" where
  "chunk_lines ch ext code document_id lines i [] chunks current_chunk chunk_start_line =
     (chunks, current_chunk, chunk_start_line)"
| "chunk_lines ch ext code document_id lines i (line # rest) chunks current_chunk chunk_start_line =
     (if is_new_unit line \<and> 0 < length current_chunk
      then
        (let chunks' = append_code_chunk ext code document_id chunks current_chunk
                         chunk_start_line (int i - 1)
         in
         if 0 < overlap ch
         then
           (let overlap_start = max 0 (int i - overlap ch) in
            chunk_lines ch ext code document_id lines (Suc i) rest chunks'
              (drop (nat overlap_start) (take (Suc i) lines)) overlap_start)
         else chunk_lines ch ext code document_id lines (Suc i) rest chunks' [line] (int i))
      else chunk_lines ch ext code document_id lines (Suc i) rest chunks
             (current_chunk @ [line]) chunk_start_line)"

definition chunk_code ::
  "SmartChunker \<Rightarrow> externals \<Rightarrow> string \<Rightarrow> string \<Rightarrow> DocumentChunk list" where
  "chunk_code ch ext code document_id =
     (let lines = split_on (CHR 0x0A) code in
      case chunk_lines ch ext code document_id lines 0 lines [] [] 0 of
        (chunks, current_chunk, chunk_start_line) \<Rightarrow>
          if current_chunk \<noteq> []
          then append_code_chunk ext code document_id chunks current_chunk
                 chunk_start_line (int (length lines) - 1)
          else chunks)"

subsection \<open>Encoder\<close>

text \<open>
  \<^verbatim>\<open>BGEEncoder\<close>: the model is absent when it failed to load; a loaded model maps a batch
  to its vectors, or to nothing when the forward pass raises. \<open>embedding_dim\<close> is the
  module constant \<^verbatim>\<open>EMBEDDING_DIM\<close> (384 unless the environment overrides it).
\<close>

record BGEEncoder =
  model :: "(string list \<Rightarrow> embedding list option) option"
  embedding_dim :: nat

text \<open>
  The inner loop of \<^verbatim>\<open>_fallback_encode\<close>: a zero vector whose positions
  \<^verbatim>\<open>range(min(len(text_hash), EMBEDDING_DIM))\<close> are overwritten.
\<close>

definition fill_embedding :: "nat list \<Rightarrow> nat \<Rightarrow> embedding" where
  "fill_embedding text_hash ndim =
     fold (\<lambda>i embedding. embedding[i := of_nat (text_hash ! (i mod length text_hash)) / 15])
       [0..<min (length text_hash) ndim] (replicate ndim 0)"

definition fallback_encode :: "externals \<Rightarrow> nat \<Rightarrow> string list \<Rightarrow> embedding list" where
  "fallback_encode ext ndim texts =
     fold (\<lambda>text embeddings.
             embeddings @ [fill_embedding (hex_digits (md5_digest ext text)) ndim])
       texts []"

definition encode :: "BGEEncoder \<Rightarrow> externals \<Rightarrow> string list \<Rightarrow> embedding list" where
  "encode enc ext texts =
     (case model enc of
        None \<Rightarrow> fallback_encode ext (embedding_dim enc) texts
      | Some forward \<Rightarrow>
          (case forward texts of
             Some embeddings \<Rightarrow> embeddings
           | None \<Rightarrow> fallback_encode ext (embedding_dim enc) texts))"

subsection \<open>Vector index\<close>

text \<open>
  \<^verbatim>\<open>USearchIndex\<close>: the keyed vectors held by usearch, in the order added; the chunk table
  (a dictionary, in insertion order); and the two files on disk, absent until written.
\<close>

record USearchIndex =
  index :: "(nat \<times> embedding) list"
  document_chunks :: "(string \<times> DocumentChunk) list"
  index_file :: "(nat \<times> embedding) list option"
  chunks_file :: "DocumentChunk list option"

text \<open>\<^verbatim>\<open>int(hashlib.md5(cid.encode()).hexdigest()[:16], 16)\<close>: the first 16 hex digits.\<close>

definition chunk_key :: "externals \<Rightarrow> string \<Rightarrow> nat" where
  "chunk_key ext cid = (md5_digest ext cid div 16 ^ 16) mod 16 ^ 16"

text \<open>The constructor: an index file on disk is loaded, with the chunks of its sidecar.\<close>

definition USearchIndex_init ::
  "(nat \<times> embedding) list option \<Rightarrow> DocumentChunk list option \<Rightarrow> USearchIndex" where
  "USearchIndex_init on_disk sidecar =
     \<lparr>index = (case on_disk of None \<Rightarrow> [] | Some entries \<Rightarrow> entries),
      document_chunks =
        (case on_disk of
           None \<Rightarrow> []
         | Some entries \<Rightarrow>
             (case sidecar of
                None \<Rightarrow> []
              | Some chunks \<Rightarrow> fold (\<lambda>c table. AList.update (chunk_ident c) c table) chunks [])),
      index_file = on_disk,
      chunks_file = sidecar\<rparr>"

text \<open>\<^verbatim>\<open>save\<close>: a failure to write is logged and otherwise ignored.\<close>

definition save :: "externals \<Rightarrow> USearchIndex \<Rightarrow> USearchIndex" where
  "save ext vi =
     (if disk_writable ext
      then vi\<lparr>index_file := Some (index vi),
              chunks_file := Some (map (\<lambda>(cid, c). c\<lparr>chunk_embedding := None\<rparr>) (document_chunks vi))\<rparr>
      else vi)"

definition add_chunk :: "externals \<Rightarrow> USearchIndex \<Rightarrow> DocumentChunk \<Rightarrow> embedding \<Rightarrow> USearchIndex" where
  "add_chunk ext vi chunk emb =
     save ext
       (vi\<lparr>index := index vi @ [(chunk_key ext (chunk_ident chunk), emb)],
           document_chunks := AList.update (chunk_ident chunk) chunk (document_chunks vi)\<rparr>)"

text \<open>
  The loop of \<^verbatim>\<open>search\<close> over the keys and distances usearch returns: the first chunk id
  of the table whose key is the one found, kept unless it is the empty string.
\<close>

fun map_results ::
  "externals \<Rightarrow> (string \<times> DocumentChunk) list \<Rightarrow> (nat \<times> rat) list \<Rightarrow> (string \<times> rat) list" where
  "map_results ext table [] = []"
| "map_results ext table ((key, distance) # rest) =
     (case find (\<lambda>(cid, chunk). chunk_key ext cid = key) table of
        None \<Rightarrow> map_results ext table rest
      | Some (cid, chunk) \<Rightarrow>
          if cid \<noteq> [] then (cid, 1 / (1 + distance)) # map_results ext table rest
          else map_results ext table rest)"

definition search :: "externals \<Rightarrow> USearchIndex \<Rightarrow> embedding \<Rightarrow> int \<Rightarrow> (string \<times> rat) list" where
  "search ext vi query_embedding k =
     (if length (index vi) = 0 then []
      else map_results ext (document_chunks vi) (usearch_search ext (index vi) query_embedding k))"

subsection \<open>Engine\<close>

record RAGEngine =
  chunker :: SmartChunker
  encoder :: BGEEncoder
  vector_index :: USearchIndex
  context_manager :: ContextManager
  documents :: "(string \<times> string) list"

definition code_indicators :: "string list" where
  "code_indicators =
     [''def '', ''class '', ''import '', ''from '', ''function '',
      ''{'', ''}'', ''var '', ''let '', ''const '', ''public '', ''private '',
      ''#include'', ''int main'', ''void '', ''struct '', ''enum '']"

definition is_code :: "string \<Rightarrow> bool" where
  "is_code text \<longleftrightarrow>
     (let lines = take 10 (split_on (CHR 0x0A) text);
          code_lines =
            length (filter (\<lambda>line. \<exists>indicator \<in> set code_indicators. contains line indicator) lines)
      in (of_nat code_lines :: rat) / of_nat (max (length lines) 1) > 3 / 10)"

text \<open>
  \<^verbatim>\<open>ingest_document\<close> returns the document id and leaves the engine changed; the
  \<^verbatim>\<open>metadata\<close> argument is never read.
\<close>

definition ingest_document ::
  "RAGEngine \<Rightarrow> externals \<Rightarrow> string \<Rightarrow> string option \<Rightarrow> RAGEngine \<times> string" where
  "ingest_document eng ext text doc_id_arg =
     (let doc_id = (case doc_id_arg of
                      None \<Rightarrow> ''doc_'' @ take 12 (hexdigest (md5_digest ext text))
                    | Some d \<Rightarrow> d);
          documents' = AList.update doc_id text (documents eng);
          chunks = (if is_code text then chunk_code (chunker eng) ext text doc_id
                    else chunk_text (chunker eng) ext text doc_id);
          embeddings = encode (encoder eng) ext (map chunk_content chunks);
          vi = fold (\<lambda>(chunk, emb) vi. add_chunk ext vi chunk emb) (zip chunks embeddings)
                 (vector_index eng)
      in (eng\<lparr>vector_index := vi, documents := documents'\<rparr>, doc_id))"

datatype error = IndexError

text \<open>\<^verbatim>\<open>query_embeddings[0]\<close>.\<close>

definition query_embedding :: "BGEEncoder \<Rightarrow> externals \<Rightarrow> string \<Rightarrow> error + embedding" where
  "query_embedding enc ext query =
     (case encode enc ext [query] of
        [] \<Rightarrow> Inl IndexError
      | q # _ \<Rightarrow> Inr q)"

text \<open>The loop of \<^verbatim>\<open>retrieve\<close> that looks every hit up in the chunk table.\<close>

fun hydrate :: "(string \<times> DocumentChunk) list \<Rightarrow> (string \<times> rat) list \<Rightarrow> RetrievedResult list" where
  "hydrate table [] = []"
| "hydrate table ((cid, similarity) # rest) =
     (case map_of table cid of
        None \<Rightarrow> hydrate table rest
      | Some chunk \<Rightarrow>
          \<lparr>result_content = chunk_content chunk,
           result_score = similarity,
           result_document_id = chunk_document_id chunk,
           result_chunk_id = chunk_ident chunk,
           result_metadata = chunk_metadata chunk\<rparr> # hydrate table rest)"

text \<open>
  \<^verbatim>\<open>sort(key=..., reverse=True)\<close>: a stable sort of the reversed list, reversed again, so
  that results of equal score keep their order.
\<close>

definition sort_descending :: "RetrievedResult list \<Rightarrow> RetrievedResult list" where
  "sort_descending rs = rev (sort_key result_score (rev rs))"

definition retrieve ::
  "RAGEngine \<Rightarrow> externals \<Rightarrow> string \<Rightarrow> int \<Rightarrow> error + RetrievedResult list" where
  "retrieve eng ext query k =
     (case query_embedding (encoder eng) ext query of
        Inl e \<Rightarrow> Inl e
      | Inr q \<Rightarrow>
          Inr (sort_descending
                 (hydrate (document_chunks (vector_index eng))
                    (search ext (vector_index eng) q k))))"

record summary =
  summary_id :: string
  summary_length :: nat
  chunk_count :: nat
  first_chunk_preview :: string
  ingested_at :: "nat option"

definition get_document_summary :: "RAGEngine \<Rightarrow> string \<Rightarrow> summary option" where
  "get_document_summary eng doc_id =
     (case map_of (documents eng) doc_id of
        None \<Rightarrow> None
      | Some text \<Rightarrow>
          (let chunks = filter (\<lambda>chunk. chunk_document_id chunk = doc_id)
                          (map snd (document_chunks (vector_index eng)))
           in Some \<lparr>summary_id = doc_id,
                    summary_length = length text,
                    chunk_count = length chunks,
                    first_chunk_preview =
                      (case chunks of [] \<Rightarrow> [] | c # _ \<Rightarrow> take 100 (chunk_content c) @ ''...''),
                    ingested_at =
                      (case chunks of [] \<Rightarrow> None | c # _ \<Rightarrow> Some (created_at c))\<rparr>))"

text \<open>
  \<^verbatim>\<open>RAGEngine()\<close> with the module defaults, when no index file is on disk and the
  embedding model and the tokenizer are not installed.
\<close>

definition RAGEngine_init :: RAGEngine where
  "RAGEngine_init =
     \<lparr>chunker = \<lparr>chunk_size = 512, overlap = 64\<rparr>,
      encoder = \<lparr>model = None, embedding_dim = 384\<rparr>,
      vector_index = USearchIndex_init None None,
      context_manager = \<lparr>max_tokens = 4096, tokenizer = None\<rparr>,
      documents = []\<rparr>"

subsection \<open>A fixed choice of the library functions\<close>

text \<open>
  To run the engine on concrete inputs: a tokenizer that ends a sentence at every full
  stop and skips the blanks before the next one (what nltk answers on the plain texts
  used below); the true MD5 digests of the strings that get hashed below; a clock that
  ticks once per chunk; a search that scans the index in insertion order and measures
  each vector by the sum of the absolute differences; a disk that can be written.
\<close>

fun split_stop :: "string \<Rightarrow> string \<Rightarrow> string list" where
  "split_stop acc [] = (if acc = [] then [] else [acc])"
| "split_stop acc (c # cs) =
     (if c = CHR '' '' \<and> acc = [] then split_stop acc cs
      else if c = CHR ''.'' then (acc @ [c]) # split_stop [] cs
      else split_stop (acc @ [c]) cs)"

definition md5_table :: "string \<Rightarrow> nat" where
  "md5_table s =
     (if s = [] then 0xd41d8cd98f00b204e9800998ecf8427e
      else if s = ''doc1_chunk_0'' then 0x59b43708f68e693d3507461f3366159e
      else if s = ''Python is a language.'' then 0x7f7eefa723bb6979875297b8ce266e83
      else if s = ''language'' then 0x8512ae7d57b1396273f76fe6ed341a23
      else 0)"

definition scan_search :: "(nat \<times> embedding) list \<Rightarrow> embedding \<Rightarrow> int \<Rightarrow> (nat \<times> rat) list" where
  "scan_search entries q k =
     take (nat k) (map (\<lambda>(key, v). (key, sum_list (map (\<lambda>(a, b). \<bar>a - b\<bar>) (zip v q)))) entries)"

definition plain_externals :: externals where
  "plain_externals =
     \<lparr>sent_tokenize = split_stop [],
      md5_digest = md5_table,
      clock = (\<lambda>n. n),
      usearch_search = scan_search,
      disk_writable = True\<rparr>"

text \<open>
  The engine after ``Python is a language.'' was ingested under the id \<open>doc1\<close>, with
  embeddings of dimension 4.
\<close>

definition doc1_engine :: RAGEngine where
  "doc1_engine =
     fst (ingest_document (RAGEngine_init\<lparr>encoder := \<lparr>model = None, embedding_dim = 4\<rparr>\<rparr>)
            plain_externals ''Python is a language.'' (Some ''doc1''))"

subsection \<open>Predicates of the size bound\<close>

text \<open>
  The shapes a chunk over the size can have: with overlap, at most two sentences and one
  more, joined by blanks; without overlap, one sentence that is itself too long.
\<close>

definition oversized :: "SmartChunker \<Rightarrow> string set \<Rightarrow> string \<Rightarrow> int \<Rightarrow> bool" where
  "oversized ch S text n \<longleftrightarrow>
     (if 0 < overlap ch
      then \<exists>ov s. length ov \<le> 2 \<and> set ov \<subseteq> S \<and> s \<in> S \<and>
             text = strip (join '' '' ov @ '' '' @ s) \<and> n = int (length ov) + 1
      else \<exists>s\<in>S. chunk_size ch < int (length s) \<and> text = strip s \<and> n = 1)"

definition chunk_ok :: "SmartChunker \<Rightarrow> string set \<Rightarrow> DocumentChunk \<Rightarrow> bool" where
  "chunk_ok ch S c \<longleftrightarrow>
     int (length (chunk_content c)) \<le> chunk_size ch \<or>
     (\<exists>n. sentence_count c = Some n \<and> oversized ch S (chunk_content c) n)"

definition buffer_ok :: "SmartChunker \<Rightarrow> string set \<Rightarrow> string \<Rightarrow> string list \<Rightarrow> bool" where
  "buffer_ok ch S cur sents \<longleftrightarrow>
     set sents \<subseteq> S \<and>
     (sents = [] \<or> int (length cur) \<le> chunk_size ch \<or>
      oversized ch S (strip cur) (int (length sents)))"

section \<open>Properties\<close>

subsection \<open>Context window\<close>

text \<open>
  Claim C1: when the turns exceed the budget, \<open>truncate_context\<close> returns the preserved
  turns oldest first, after the system turn. The source means to (its comment reads
  ``Reverse to restore chronological order''), but \<^verbatim>\<open>insert(1, msg)\<close> has already put
  the kept turns oldest first behind the system turn, and the final
  \<^verbatim>\<open>non_system.reverse()\<close> turns them round: with a budget of 3 tokens and four turns
  of one token each, the newest turn \<open>cccc\<close> comes back before the older \<open>bbbb\<close>.
\<close>

theorem truncate_context_newest_first:
  "truncate_context \<lparr>max_tokens = 3, tokenizer = None\<rparr>
     [\<lparr>msg_role = Some ''system'', msg_content = Some ''ssss''\<rparr>,
      \<lparr>msg_role = Some ''user'', msg_content = Some ''aaaa''\<rparr>,
      \<lparr>msg_role = Some ''assistant'', msg_content = Some ''bbbb''\<rparr>,
      \<lparr>msg_role = Some ''user'', msg_content = Some ''cccc''\<rparr>] None
   = [\<lparr>msg_role = Some ''system'', msg_content = Some ''ssss''\<rparr>,
      \<lparr>msg_role = Some ''user'', msg_content = Some ''cccc''\<rparr>,
      \<lparr>msg_role = Some ''assistant'', msg_content = Some ''bbbb''\<rparr>]"
  by (simp add: truncate_context_def total_content_def count_tokens_def get_content_def
      find_system_def list_insert_def)

lemma count_tokens_nonneg: "0 \<le> count_tokens cm text"
  by (simp add: count_tokens_def split: option.splits)

lemma turn_tokens_nonneg: "0 \<le> turn_tokens cm ms"
  unfolding turn_tokens_def by (rule sum_list_nonneg) (auto simp: count_tokens_nonneg)

lemma turn_tokens_list_insert:
  "turn_tokens cm (list_insert i m ms) = count_tokens cm (get_content m) + turn_tokens cm ms"
proof -
  have "turn_tokens cm (take i ms @ drop i ms) = turn_tokens cm ms"
    by simp
  then show ?thesis
    unfolding list_insert_def turn_tokens_def
    by (simp del: append_take_drop_id)
qed

lemma turn_tokens_filter_le: "turn_tokens cm (filter P ms) \<le> turn_tokens cm ms"
proof (induction ms)
  case Nil
  then show ?case by simp
next
  case (Cons m ms)
  then show ?case
    using count_tokens_nonneg[of cm "get_content m"] by (simp add: turn_tokens_def)
qed

lemma turn_tokens_rev: "turn_tokens cm (rev ms) = turn_tokens cm ms"
  by (induction ms) (simp_all add: turn_tokens_def)

lemma add_recent_budget:
  "current_tokens = turn_tokens cm truncated \<Longrightarrow> current_tokens \<le> max_tokens cm \<Longrightarrow>
   turn_tokens cm (add_recent cm ms truncated current_tokens) \<le> max_tokens cm"
proof (induction ms arbitrary: truncated current_tokens)
  case Nil
  then show ?case by simp
next
  case (Cons m ms)
  show ?case
  proof (cases "current_tokens + count_tokens cm (get_content m) \<le> max_tokens cm")
    case True
    have "turn_tokens cm
            (add_recent cm ms (list_insert 1 m truncated)
               (current_tokens + count_tokens cm (get_content m))) \<le> max_tokens cm"
      using True Cons.prems(1) by (intro Cons.IH) (simp_all add: turn_tokens_list_insert)
    with True show ?thesis by (simp add: Let_def)
  next
    case False
    with Cons.prems show ?thesis by (simp add: Let_def)
  qed
qed

lemma chars_tokens_le:
  "sum_list (map (\<lambda>m. int (length (get_content m) div 4)) ms)
     \<le> int (length (concat (map (\<lambda>m. get_content m @ [CHR 0x0A]) ms) @ tail) div 4)"
proof (induction ms)
  case Nil
  then show ?case by simp
next
  case (Cons m ms)
  let ?rest = "length (concat (map (\<lambda>m. get_content m @ [CHR 0x0A]) ms) @ tail)"
  have "length (get_content m) div 4 + ?rest div 4 \<le> (length (get_content m) + 1 + ?rest) div 4"
    by presburger
  with Cons show ?case by simp
qed

text \<open>
  What the loop guards: counted turn by turn with the four-characters estimate, the
  turns of the output stay within a non-negative budget unless the system turn alone
  exceeds it. Retrieved segments are not part of this count.
\<close>

lemma truncate_context_turn_budget:
  assumes "tokenizer cm = None" "0 \<le> max_tokens cm"
    and "\<And>s. find_system messages = Some s \<Longrightarrow> count_tokens cm (get_content s) \<le> max_tokens cm"
  shows "turn_tokens cm (truncate_context cm messages retrieved_chunks) \<le> max_tokens cm"
proof (cases "messages = [] \<or> count_tokens cm (total_content messages retrieved_chunks) \<le> max_tokens cm")
  case True
  have "turn_tokens cm messages \<le> count_tokens cm (total_content messages retrieved_chunks)"
    using chars_tokens_le[of messages] assms(1)
    by (simp add: turn_tokens_def count_tokens_def total_content_def)
  with True assms(2) show ?thesis
    by (auto simp: truncate_context_def turn_tokens_def)
next
  case False
  show ?thesis
  proof (cases "find_system messages")
    case None
    have "turn_tokens cm (add_recent cm (rev messages) [] 0) \<le> max_tokens cm"
      by (rule add_recent_budget) (simp_all add: turn_tokens_def assms(2))
    with False None show ?thesis
      by (simp add: truncate_context_def turn_tokens_rev)
  next
    case (Some s)
    let ?kept = "add_recent cm (rev (filter (\<lambda>m. m \<noteq> s) messages)) [s]
                   (count_tokens cm (get_content s))"
    have kept: "turn_tokens cm ?kept \<le> max_tokens cm"
      by (rule add_recent_budget) (simp_all add: turn_tokens_def assms(3)[OF Some])
    have hd_kept: "\<exists>rest. add_recent cm ms (s # pre) c = s # rest" for ms pre c
      by (induction ms arbitrary: pre c) (auto simp: Let_def list_insert_def)
    then obtain rest where rest: "?kept = s # rest"
      by blast
    have "turn_tokens cm (s # rev (filter (\<lambda>m. m \<noteq> s) ?kept))
            = count_tokens cm (get_content s) + turn_tokens cm (filter (\<lambda>m. m \<noteq> s) rest)"
      using turn_tokens_rev[of cm "filter (\<lambda>m. m \<noteq> s) rest"]
      by (simp add: rest turn_tokens_def)
    also have "\<dots> \<le> count_tokens cm (get_content s) + turn_tokens cm rest"
      using turn_tokens_filter_le[of cm _ rest] by simp
    also have "\<dots> = turn_tokens cm ?kept"
      by (simp add: rest turn_tokens_def)
    finally show ?thesis
      using kept False Some by (simp add: truncate_context_def Let_def)
  qed
qed

text \<open>
  Claim C2: the estimated tokens of the output, together with the retrieved segments
  counted toward the same budget, do not exceed the maximum unless the system turn alone
  does. The retrieved segments enter the test that decides whether to truncate, but the
  loop that fills the window starts from the system turn's tokens only: with a budget of
  2, one user turn of one token and one retrieved segment of three tokens, the turn is
  kept and the total, measured as the source measures it, is 4; measured turn by turn
  and segment by segment it is 1 + 3.
\<close>

theorem truncate_context_ignores_retrieved:
  "truncate_context \<lparr>max_tokens = 2, tokenizer = None\<rparr>
     [\<lparr>msg_role = Some ''user'', msg_content = Some ''aaaa''\<rparr>]
     (Some [\<lparr>result_content = ''bbbbbbbbbbbb'', result_score = 1, result_document_id = ''d'',
             result_chunk_id = ''d_chunk_0'', result_metadata = []\<rparr>])
   = [\<lparr>msg_role = Some ''user'', msg_content = Some ''aaaa''\<rparr>]
   \<and> find_system [\<lparr>msg_role = Some ''user'', msg_content = Some ''aaaa''\<rparr>] = None
   \<and> count_tokens \<lparr>max_tokens = 2, tokenizer = None\<rparr>
        (total_content [\<lparr>msg_role = Some ''user'', msg_content = Some ''aaaa''\<rparr>]
           (Some [\<lparr>result_content = ''bbbbbbbbbbbb'', result_score = 1, result_document_id = ''d'',
                   result_chunk_id = ''d_chunk_0'', result_metadata = []\<rparr>])) = 4
   \<and> turn_tokens \<lparr>max_tokens = 2, tokenizer = None\<rparr>
        [\<lparr>msg_role = Some ''user'', msg_content = Some ''aaaa''\<rparr>] = 1
   \<and> count_tokens \<lparr>max_tokens = 2, tokenizer = None\<rparr> ''bbbbbbbbbbbb'' = 3"
  by (simp add: truncate_context_def total_content_def count_tokens_def get_content_def
      find_system_def list_insert_def turn_tokens_def)

text \<open>
  Claim C6: \<open>truncate_context\<close> applied to its own output returns that output. With a
  budget of 3 and four turns of seven characters (one token each, but nine characters
  with the newline that the fit test adds), the first pass keeps three turns newest
  first; they still fail the fit test, so the second pass runs the loop again and turns
  them round once more.
\<close>

theorem truncate_context_twice_differs:
  "truncate_context \<lparr>max_tokens = 3, tokenizer = None\<rparr>
     (truncate_context \<lparr>max_tokens = 3, tokenizer = None\<rparr>
        [\<lparr>msg_role = Some ''system'', msg_content = Some ''sys''\<rparr>,
         \<lparr>msg_role = Some ''user'', msg_content = Some ''aaaaaaa''\<rparr>,
         \<lparr>msg_role = Some ''assistant'', msg_content = Some ''bbbbbbb''\<rparr>,
         \<lparr>msg_role = Some ''user'', msg_content = Some ''ccccccc''\<rparr>,
         \<lparr>msg_role = Some ''assistant'', msg_content = Some ''ddddddd''\<rparr>] None) None
   = [\<lparr>msg_role = Some ''system'', msg_content = Some ''sys''\<rparr>,
      \<lparr>msg_role = Some ''assistant'', msg_content = Some ''bbbbbbb''\<rparr>,
      \<lparr>msg_role = Some ''user'', msg_content = Some ''ccccccc''\<rparr>,
      \<lparr>msg_role = Some ''assistant'', msg_content = Some ''ddddddd''\<rparr>]
   \<and> truncate_context \<lparr>max_tokens = 3, tokenizer = None\<rparr>
        [\<lparr>msg_role = Some ''system'', msg_content = Some ''sys''\<rparr>,
         \<lparr>msg_role = Some ''user'', msg_content = Some ''aaaaaaa''\<rparr>,
         \<lparr>msg_role = Some ''assistant'', msg_content = Some ''bbbbbbb''\<rparr>,
         \<lparr>msg_role = Some ''user'', msg_content = Some ''ccccccc''\<rparr>,
         \<lparr>msg_role = Some ''assistant'', msg_content = Some ''ddddddd''\<rparr>] None
   = [\<lparr>msg_role = Some ''system'', msg_content = Some ''sys''\<rparr>,
      \<lparr>msg_role = Some ''assistant'', msg_content = Some ''ddddddd''\<rparr>,
      \<lparr>msg_role = Some ''user'', msg_content = Some ''ccccccc''\<rparr>,
      \<lparr>msg_role = Some ''assistant'', msg_content = Some ''bbbbbbb''\<rparr>]"
  by (simp add: truncate_context_def total_content_def count_tokens_def get_content_def
      find_system_def list_insert_def)

subsection \<open>Size of the prose chunks\<close>

lemma length_strip_le: "length (strip s) \<le> length s"
proof -
  have "length (dropWhile is_space (rev (dropWhile is_space s)))
          \<le> length (rev (dropWhile is_space s))"
    by (rule length_dropWhile_le)
  also have "\<dots> \<le> length s"
    by (simp add: length_dropWhile_le)
  finally show ?thesis
    by (simp add: strip_def)
qed

lemma overlap_tail_props:
  "length (overlap_tail xs) \<le> 2" "set (overlap_tail xs) \<subseteq> set xs"
  by (auto simp: overlap_tail_def dest: in_set_dropD)

lemma append_chunk_ok:
  assumes "\<forall>c\<in>set chunks. chunk_ok ch S c" "buffer_ok ch S cur sents" "sents \<noteq> []"
  shows "\<forall>c\<in>set (append_chunk ext d chunks cur sents). chunk_ok ch S c"
proof -
  let ?c = "last (append_chunk ext d chunks cur sents)"
  have c: "chunk_content ?c = strip cur" "sentence_count ?c = Some (int (length sents))"
    by (simp_all add: append_chunk_def sentence_count_def)
  have "chunk_ok ch S ?c"
  proof (cases "int (length cur) \<le> chunk_size ch")
    case True
    with length_strip_le[of cur] show ?thesis
      by (simp add: chunk_ok_def c)
  next
    case False
    with assms(2,3) show ?thesis
      by (simp add: chunk_ok_def buffer_ok_def c)
  qed
  moreover have "set (append_chunk ext d chunks cur sents) = insert ?c (set chunks)"
    by (simp add: append_chunk_def)
  ultimately show ?thesis
    using assms(1) by simp
qed

text \<open>The loop keeps every chunk and the running buffer within the bound or of the excused shape.\<close>

lemma chunk_sentences_ok:
  assumes "chunk_sentences ch ext d rest chunks cur sents = (chunks', cur', sents')"
    and "set rest \<subseteq> S"
    and "\<forall>c\<in>set chunks. chunk_ok ch S c"
    and "buffer_ok ch S cur sents"
  shows "(\<forall>c\<in>set chunks'. chunk_ok ch S c) \<and> buffer_ok ch S cur' sents'"
  using assms
proof (induction rest arbitrary: chunks cur sents)
  case Nil
  then show ?case by simp
next
  case (Cons sentence rest)
  let ?test = "if cur \<noteq> [] then cur @ '' '' @ sentence else sentence"
  have sS: "sentence \<in> S" and rS: "set rest \<subseteq> S"
    using Cons.prems(2) by auto
  have sentsS: "set sents \<subseteq> S"
    using Cons.prems(4) by (simp add: buffer_ok_def)
  show ?case
  proof (cases "int (length ?test) \<le> chunk_size ch")
    case True
    have b: "buffer_ok ch S ?test (sents @ [sentence])"
      using True sS sentsS by (simp add: buffer_ok_def)
    from Cons.prems(1) True
    have "chunk_sentences ch ext d rest chunks ?test (sents @ [sentence]) = (chunks', cur', sents')"
      by (simp add: Let_def)
    from Cons.IH[OF this rS Cons.prems(3) b] show ?thesis .
  next
    case False
    let ?chunks = "if sents \<noteq> [] then append_chunk ext d chunks cur sents else chunks"
    have ck: "\<forall>c\<in>set ?chunks. chunk_ok ch S c"
      using append_chunk_ok[OF Cons.prems(3) Cons.prems(4)] Cons.prems(3) by simp
    show ?thesis
    proof (cases "0 < overlap ch")
      case ov: True
      let ?ov = "overlap_tail sents"
      let ?cur = "join '' '' ?ov @ '' '' @ sentence"
      have b: "buffer_ok ch S ?cur (?ov @ [sentence])"
        unfolding buffer_ok_def oversized_def
        using ov sS sentsS overlap_tail_props[of sents]
        by (auto intro!: exI[of _ ?ov] exI[of _ sentence])
      from Cons.prems(1) False ov
      have "chunk_sentences ch ext d rest ?chunks ?cur (?ov @ [sentence]) = (chunks', cur', sents')"
        by (simp add: Let_def)
      from Cons.IH[OF this rS ck b] show ?thesis .
    next
      case nov: False
      have b: "buffer_ok ch S sentence [sentence]"
        unfolding buffer_ok_def oversized_def
        using nov sS
        by (cases "int (length sentence) \<le> chunk_size ch") (auto intro!: bexI[of _ sentence])
      from Cons.prems(1) False nov
      have "chunk_sentences ch ext d rest ?chunks sentence [sentence] = (chunks', cur', sents')"
        by (simp add: Let_def)
      from Cons.IH[OF this rS ck b] show ?thesis .
    qed
  qed
qed

lemma chunk_text_cats:
  "chunk_text \<lparr>chunk_size = 20, overlap = 64\<rparr> plain_externals
     ''Cats purr. Dogs bark. Cows moo.'' ''notes'' =
   [\<lparr>chunk_ident = ''notes_chunk_0'', chunk_content = ''Cats purr.'',
      chunk_document_id = ''notes'', chunk_metadata = [(''sentence_count'', MInt 1)],
      chunk_embedding = None, created_at = 0\<rparr>,
    \<lparr>chunk_ident = ''notes_chunk_1'', chunk_content = ''Cats purr. Dogs bark.'',
      chunk_document_id = ''notes'', chunk_metadata = [(''sentence_count'', MInt 2)],
      chunk_embedding = None, created_at = 1\<rparr>,
    \<lparr>chunk_ident = ''notes_chunk_2'', chunk_content = ''Cats purr. Dogs bark. Cows moo.'',
      chunk_document_id = ''notes'', chunk_metadata = [(''sentence_count'', MInt 3)],
      chunk_embedding = None, created_at = 2\<rparr>]"
  by (simp add: chunk_text_def plain_externals_def append_chunk_def overlap_tail_def
      strip_def is_space_def str_nat.simps digit_char_def Let_def)

lemma chunk_text_cats_no_overlap:
  "map chunk_content
     (chunk_text \<lparr>chunk_size = 20, overlap = 0\<rparr> plain_externals
        ''Cats purr. Dogs bark. Cows moo.'' ''notes'')
   = [''Cats purr.'', ''Dogs bark. Cows moo.'']"
  by (simp add: chunk_text_def plain_externals_def append_chunk_def
      strip_def is_space_def str_nat.simps digit_char_def Let_def)

text \<open>
  Where a chunk over the size can come from: only from a buffer that was started afresh
  at a boundary and not extended. With the overlap on, such a buffer holds at most two
  sentences of the text and one more; with the overlap off, one sentence that is itself
  longer than the size.
\<close>

lemma chunk_text_size_bound:
  assumes "c \<in> set (chunk_text ch ext text d)"
  shows "int (length (chunk_content c)) \<le> chunk_size ch \<or>
         (if 0 < overlap ch
          then \<exists>ov s. length ov \<le> 2 \<and> set ov \<subseteq> set (sent_tokenize ext text) \<and>
                 s \<in> set (sent_tokenize ext text) \<and>
                 chunk_content c = strip (join '' '' ov @ '' '' @ s) \<and>
                 sentence_count c = Some (int (length ov) + 1)
          else \<exists>s\<in>set (sent_tokenize ext text). chunk_size ch < int (length s) \<and>
                 chunk_content c = strip s \<and> sentence_count c = Some 1)"
proof -
  let ?S = "set (sent_tokenize ext text)"
  obtain chunks cur sents where
    run: "chunk_sentences ch ext d (sent_tokenize ext text) [] [] [] = (chunks, cur, sents)"
    by (cases "chunk_sentences ch ext d (sent_tokenize ext text) [] [] []") auto
  have b0: "buffer_ok ch ?S [] []" and c0: "\<forall>c\<in>set ([]::DocumentChunk list). chunk_ok ch ?S c"
    by (simp_all add: buffer_ok_def)
  from chunk_sentences_ok[OF run subset_refl c0 b0]
  have ck: "\<forall>c\<in>set chunks. chunk_ok ch ?S c" and b: "buffer_ok ch ?S cur sents"
    by blast+
  have "\<forall>c\<in>set (chunk_text ch ext text d). chunk_ok ch ?S c"
    using append_chunk_ok[OF ck b] ck by (simp add: chunk_text_def run)
  with assms have "chunk_ok ch ?S c"
    by blast
  then show ?thesis
    unfolding chunk_ok_def oversized_def by (auto split: if_splits)
qed

text \<open>
  With the overlap off the bound holds as the size test of the loop means it to: a chunk
  is within the size, or it is one sentence longer than the size, kept whole.
\<close>

lemma chunk_text_size_bound_no_overlap:
  assumes "overlap ch \<le> 0" "c \<in> set (chunk_text ch ext text d)"
  shows "int (length (chunk_content c)) \<le> chunk_size ch \<or>
         (\<exists>s\<in>set (sent_tokenize ext text). chunk_size ch < int (length s) \<and>
            chunk_content c = strip s \<and> sentence_count c = Some 1)"
  using chunk_text_size_bound[OF assms(2)] assms(1) by simp

text \<open>
  Claim C3: every chunk of \<open>chunk_text\<close> is within the chunk size, a single sentence
  longer than the size apart. The loop tests \<^verbatim>\<open>len(test_chunk) <= self.chunk_size\<close>
  before it extends the buffer, but with the overlap on (the default) the branch taken
  when the test fails starts the next buffer from the last two sentences and the new
  one, and no test follows. With a chunk size of 20 and three sentences of 10, 10 and 9
  characters, the second chunk is the very \<open>test_chunk\<close> of 21 characters that the test
  had just refused, and the third has 31 characters; no sentence is longer than the
  size. With the overlap off the same text gives chunks of 10 and 20 characters.
\<close>

theorem chunk_text_overlap_oversize:
  "sent_tokenize plain_externals ''Cats purr. Dogs bark. Cows moo.''
     = [''Cats purr.'', ''Dogs bark.'', ''Cows moo.'']
   \<and> map chunk_content
       (chunk_text \<lparr>chunk_size = 20, overlap = 64\<rparr> plain_externals
          ''Cats purr. Dogs bark. Cows moo.'' ''notes'')
     = [''Cats purr.'', ''Cats purr. Dogs bark.'', ''Cats purr. Dogs bark. Cows moo.'']
   \<and> map length [''Cats purr.'', ''Cats purr. Dogs bark.'', ''Cats purr. Dogs bark. Cows moo.'']
     = [10, 21, 31]
   \<and> map chunk_content
       (chunk_text \<lparr>chunk_size = 20, overlap = 0\<rparr> plain_externals
          ''Cats purr. Dogs bark. Cows moo.'' ''notes'')
     = [''Cats purr.'', ''Dogs bark. Cows moo.'']
   \<and> map length [''Cats purr.'', ''Dogs bark. Cows moo.''] = [10, 20]"
  by (simp add: chunk_text_cats chunk_text_cats_no_overlap) (simp add: plain_externals_def)

subsection \<open>Ingestion and summaries\<close>

lemma length_fallback_encode: "length (fallback_encode ext n texts) = length texts"
proof -
  have "length (fold (\<lambda>text embeddings. embeddings @ [f text]) texts acc)
          = length acc + length texts"
    for f :: "string \<Rightarrow> embedding" and acc
    by (induction texts arbitrary: acc) simp_all
  then show ?thesis
    by (simp add: fallback_encode_def)
qed

lemma is_code_empty: "\<not> is_code []"
  by (simp add: is_code_def code_indicators_def)

lemma chunk_text_no_sentences: "sent_tokenize ext text = [] \<Longrightarrow> chunk_text ch ext text d = []"
  by (simp add: chunk_text_def)

lemma hexdigest_empty: "take 12 (hexdigest (md5_table [])) = ''d41d8cd98f00''"
  by (simp add: hexdigest_def hex_digits_def md5_table_def upt_rec digit_char_def)

text \<open>
  Claim C4 says that empty content is refused with a validation error and changes
  nothing. \<open>ingest_document\<close> has no validation: on the empty text it returns a document
  id and has stored the text under it.
\<close>

theorem ingest_document_empty_stored:
  "ingest_document RAGEngine_init plain_externals [] None =
     (RAGEngine_init\<lparr>documents := [(''doc_d41d8cd98f00'', [])]\<rparr>, ''doc_d41d8cd98f00'')
   \<and> documents (fst (ingest_document RAGEngine_init plain_externals [] None))
       \<noteq> documents RAGEngine_init"
  by (simp add: ingest_document_def is_code_empty chunk_text_no_sentences Let_def
      plain_externals_def hexdigest_empty RAGEngine_init_def)

text \<open>
  Claim C4, as the code has it: when the tokenizer finds no sentence in the empty text,
  ingesting it returns the document id (the one given, or \<open>doc_\<close> and the first 12 hex
  digits of the digest of the empty text) and changes the engine in one place only, the
  in-memory document store, which now holds the empty text under that id. The vector
  index, its chunk table and both files on disk are as before.
\<close>

theorem ingest_document_empty:
  assumes "sent_tokenize ext [] = []"
  shows "ingest_document eng ext [] doc_id =
          (let d = (case doc_id of
                      None \<Rightarrow> ''doc_'' @ take 12 (hexdigest (md5_digest ext []))
                    | Some d \<Rightarrow> d)
           in (eng\<lparr>documents := AList.update d [] (documents eng)\<rparr>, d))"
  using assms
  by (simp add: ingest_document_def is_code_empty chunk_text_no_sentences Let_def)

theorem ingest_document_empty_witness:
  "sent_tokenize plain_externals [] = [] \<and>
   ingest_document RAGEngine_init plain_externals [] None =
     (RAGEngine_init\<lparr>documents := [(''doc_d41d8cd98f00'', [])]\<rparr>, ''doc_d41d8cd98f00'')"
proof -
  have h: "sent_tokenize plain_externals [] = []"
    by (simp add: plain_externals_def)
  have d: "documents RAGEngine_init = []"
    by (simp add: RAGEngine_init_def)
  show ?thesis
    using ingest_document_empty[OF h, of RAGEngine_init None] h
    by (simp add: plain_externals_def hexdigest_empty d Let_def)
qed

lemma documents_ingest_document:
  "documents (fst (ingest_document eng ext text (Some d))) = AList.update d text (documents eng)"
  by (simp add: ingest_document_def Let_def)

lemma is_code_python: "\<not> is_code ''Python is a language.''"
  by (simp add: is_code_def code_indicators_def starts_with_def)

lemma strip_python: "strip ''Python is a language.'' = ''Python is a language.''"
  by (simp add: strip_def is_space_def)

text \<open>A text of one sentence gives one chunk, whatever the chunk size and the overlap.\<close>

lemma chunk_text_one_sentence:
  assumes "sent_tokenize ext text = [s]"
  shows "\<exists>cur. strip cur = strip s \<and>
           chunk_text ch ext text d =
             [\<lparr>chunk_ident = d @ ''_chunk_0'', chunk_content = strip cur,
               chunk_document_id = d, chunk_metadata = [(''sentence_count'', MInt 1)],
               chunk_embedding = None, created_at = clock ext 0\<rparr>]"
proof -
  have sp: "strip ('' '' @ s) = strip s"
    by (simp add: strip_def is_space_def)
  have n0: "str_nat 0 = ''0''"
    by (simp add: str_nat.simps digit_char_def)
  show ?thesis
  proof (cases "int (length s) \<le> chunk_size ch")
    case True
    then show ?thesis
      using assms by (intro exI[of _ s]) (simp add: chunk_text_def append_chunk_def n0)
  next
    case False
    show ?thesis
    proof (cases "0 < overlap ch")
      case True
      with False show ?thesis
        using assms sp
        by (intro exI[of _ "'' '' @ s"])
           (simp add: chunk_text_def append_chunk_def n0 overlap_tail_def)
    next
      case no: False
      with False show ?thesis
        using assms by (intro exI[of _ s]) (simp add: chunk_text_def append_chunk_def n0)
    qed
  qed
qed

lemma filter_values_update:
  assumes "P v" "filter P (map snd table) = []"
  shows "filter P (map snd (AList.update k v table)) = [v]"
  using assms by (induction table) (auto split: if_splits)

lemma document_chunks_add_chunk:
  "document_chunks (add_chunk ext vi chunk emb) =
     AList.update (chunk_ident chunk) chunk (document_chunks vi)"
  by (simp add: add_chunk_def save_def)

text \<open>
  Claim C5 gives the summary of ``Python is a language.'' a length of 22. The text has
  21 characters, and the summary reports \<^verbatim>\<open>len(content)\<close>.
\<close>

theorem summary_length_python:
  "map_option summary_length
     (get_document_summary
        (fst (ingest_document RAGEngine_init plain_externals ''Python is a language.''
                (Some ''doc1'')))
        ''doc1'') = Some 21"
  by (simp add: get_document_summary_def documents_ingest_document RAGEngine_init_def Let_def)

text \<open>
  Claim C5, as the code has it: after ingesting ``Python is a language.'' under the id
  \<open>doc1\<close>, the summary of \<open>doc1\<close> has \<open>chunk_count\<close> 1 and length 21. This holds for an
  engine that holds no chunk of \<open>doc1\<close> yet, when the tokenizer sees one sentence and the
  encoder returns one vector for the one chunk.
\<close>

theorem summary_python:
  assumes tok: "sent_tokenize ext ''Python is a language.'' = [''Python is a language.'']"
    and fresh: "filter (\<lambda>chunk. chunk_document_id chunk = ''doc1'')
                  (map snd (document_chunks (vector_index eng))) = []"
    and enc: "length (encode (encoder eng) ext [''Python is a language.'']) = 1"
  shows "\<exists>s. get_document_summary
                (fst (ingest_document eng ext ''Python is a language.'' (Some ''doc1''))) ''doc1''
              = Some s \<and> chunk_count s = 1 \<and> summary_length s = 21"
proof -
  let ?T = "''Python is a language.''"
  obtain cur where cur: "strip cur = ?T"
    and chunks: "chunk_text (chunker eng) ext ?T ''doc1'' =
      [\<lparr>chunk_ident = ''doc1_chunk_0'', chunk_content = strip cur,
        chunk_document_id = ''doc1'', chunk_metadata = [(''sentence_count'', MInt 1)],
        chunk_embedding = None, created_at = clock ext 0\<rparr>]"
    using chunk_text_one_sentence[OF tok, of "chunker eng" "''doc1''"] strip_python by auto
  obtain e where e: "encode (encoder eng) ext [?T] = [e]"
    using enc by (cases "encode (encoder eng) ext [?T]") auto
  let ?c = "\<lparr>chunk_ident = ''doc1_chunk_0'', chunk_content = ?T,
        chunk_document_id = ''doc1'', chunk_metadata = [(''sentence_count'', MInt 1)],
        chunk_embedding = None, created_at = clock ext 0\<rparr>"
  have vi: "vector_index (fst (ingest_document eng ext ?T (Some ''doc1''))) =
              add_chunk ext (vector_index eng) ?c e"
    by (simp add: ingest_document_def Let_def is_code_python chunks cur e)
  have "filter (\<lambda>chunk. chunk_document_id chunk = ''doc1'')
          (map snd (document_chunks
             (vector_index (fst (ingest_document eng ext ?T (Some ''doc1'')))))) = [?c]"
    unfolding vi document_chunks_add_chunk
    using filter_values_update[of "\<lambda>chunk. chunk_document_id chunk = ''doc1''" ?c, OF _ fresh]
    by simp
  then show ?thesis
    by (simp add: get_document_summary_def documents_ingest_document Let_def update_conv')
qed

theorem summary_python_witness:
  "sent_tokenize plain_externals ''Python is a language.'' = [''Python is a language.''] \<and>
   filter (\<lambda>chunk. chunk_document_id chunk = ''doc1'')
     (map snd (document_chunks (vector_index RAGEngine_init))) = [] \<and>
   length (encode (encoder RAGEngine_init) plain_externals [''Python is a language.'']) = 1 \<and>
   (\<exists>s. get_document_summary
          (fst (ingest_document RAGEngine_init plain_externals ''Python is a language.''
                  (Some ''doc1''))) ''doc1''
        = Some s \<and> chunk_count s = 1 \<and> summary_length s = 21)"
proof -
  have tok: "sent_tokenize plain_externals ''Python is a language.'' = [''Python is a language.'']"
    by (simp add: plain_externals_def)
  have fresh: "filter (\<lambda>chunk. chunk_document_id chunk = ''doc1'')
     (map snd (document_chunks (vector_index RAGEngine_init))) = []"
    by (simp add: RAGEngine_init_def USearchIndex_init_def)
  have enc: "length (encode (encoder RAGEngine_init) plain_externals [''Python is a language.'']) = 1"
    by (simp add: encode_def RAGEngine_init_def length_fallback_encode)
  from summary_python[OF tok fresh enc] tok fresh enc show ?thesis
    by blast
qed

subsection \<open>Fallback encoder\<close>

lemma fold_snoc_map: "fold (\<lambda>x acc. acc @ [f x]) xs acc = acc @ map f xs"
  by (induction xs arbitrary: acc) simp_all

lemma fallback_encode_map:
  "fallback_encode ext n texts =
     map (\<lambda>text. fill_embedding (hex_digits (md5_digest ext text)) n) texts"
  by (simp add: fallback_encode_def fold_snoc_map)

lemma length_hex_digits: "length (hex_digits h) = 32"
  by (simp add: hex_digits_def)

lemma hex_digits_nth: "i < 32 \<Longrightarrow> hex_digits h ! i = (h div 16 ^ (31 - i)) mod 16"
  by (simp add: hex_digits_def)

lemma replicate_4: "replicate 4 (0::rat) = [0, 0, 0, 0]"
  by (simp add: numeral_eq_Suc)

text \<open>
  Claim C7: the fallback encoder returns one vector per text, in the order of the texts,
  and the vector of a text depends on nothing but the text: wherever the same string
  stands, in whatever batch, it gets the same vector, which is the one it gets alone.
\<close>

theorem fallback_encode_deterministic:
  assumes "i < length xs" "j < length ys" "xs ! i = ys ! j"
  shows "length (fallback_encode ext n xs) = length xs \<and>
         fallback_encode ext n xs ! i = hd (fallback_encode ext n [xs ! i]) \<and>
         fallback_encode ext n xs ! i = fallback_encode ext n ys ! j"
  using assms by (simp add: fallback_encode_map)

theorem fallback_encode_deterministic_witness:
  "(1::nat) < length [''language'', ''Python is a language.''] \<and>
   (0::nat) < length [''Python is a language.''] \<and>
   [''language'', ''Python is a language.''] ! 1 = [''Python is a language.''] ! 0 \<and>
   length (fallback_encode plain_externals 4 [''language'', ''Python is a language.'']) = 2 \<and>
   fallback_encode plain_externals 4 [''language'', ''Python is a language.''] ! 1
     = hd (fallback_encode plain_externals 4 [''Python is a language.'']) \<and>
   fallback_encode plain_externals 4 [''language'', ''Python is a language.''] ! 1
     = fallback_encode plain_externals 4 [''Python is a language.''] ! 0 \<and>
   fallback_encode plain_externals 4 [''Python is a language.''] ! 0
     = [7 / 15, 1, 7 / 15, 14 / 15]"
proof -
  have a: "(1::nat) < length [''language'', ''Python is a language.'']"
    by simp
  have b: "(0::nat) < length [''Python is a language.'']"
    by simp
  have c: "[''language'', ''Python is a language.''] ! 1 = [''Python is a language.''] ! 0"
    by simp
  have v: "fallback_encode plain_externals 4 [''Python is a language.''] ! 0
             = [7 / 15, 1, 7 / 15, 14 / 15]"
    by (simp add: fallback_encode_def fill_embedding_def length_hex_digits hex_digits_nth
        plain_externals_def md5_table_def upt_rec replicate_4)
  from fallback_encode_deterministic[OF a b c, of plain_externals 4] v show ?thesis
    by auto
qed

lemma fold_update_nth:
  "j < length xs \<Longrightarrow>
   fold (\<lambda>i e. e[i := g i]) [0..<m] xs ! j = (if j < m then g j else xs ! j)"
proof (induction m)
  case 0
  then show ?case by simp
next
  case (Suc m)
  have len: "length (fold (\<lambda>i e. e[i := g i]) [0..<m] xs) = length xs" for m
    by (induction m) simp_all
  from Suc show ?case
    by (auto simp: len nth_list_update less_Suc_eq)
qed

text \<open>Every position of the vector: a digit of the digest over 15 below 32, zero from 32 on.\<close>

lemma fill_embedding_nth:
  "i < n \<Longrightarrow>
   fill_embedding text_hash n ! i =
     (if i < min (length text_hash) n
      then of_nat (text_hash ! (i mod length text_hash)) / 15 else 0)"
  by (simp add: fill_embedding_def fold_update_nth)

text \<open>
  Claim C8: the digits of the digest are repeated cyclically, so that every position of
  the vector holds a digit of the digest over 15. The source indexes the digest with
  \<^verbatim>\<open>i % len(text_hash)\<close>, but its loop stops at \<^verbatim>\<open>min(len(text_hash), EMBEDDING_DIM)\<close>,
  that is at 32: of the 384 positions only the first 32 are written. For the empty text,
  whose digest starts with the digit \<open>d\<close>, position 0 holds 13/15 and position 32, where
  the cycle would bring the same digit back, holds 0, as does the last position.
\<close>

theorem fallback_encode_tail_zero:
  "hex_digits (md5_digest plain_externals []) ! (32 mod 32) = 13
   \<and> fallback_encode plain_externals 384 [[]] ! 0 ! 0 = 13 / 15
   \<and> fallback_encode plain_externals 384 [[]] ! 0 ! 32 = 0
   \<and> fallback_encode plain_externals 384 [[]] ! 0 ! 383 = 0"
  by (simp add: fallback_encode_map fill_embedding_nth length_hex_digits hex_digits_nth
      plain_externals_def md5_table_def)

subsection \<open>Search and retrieval\<close>

text \<open>
  Claim C9: whatever the query vector and \<open>k\<close>, and whatever the chunk table holds,
  searching an index without vectors returns the empty list.
\<close>

theorem search_empty_index:
  "search ext \<lparr>index = [], document_chunks = table, index_file = on_disk, chunks_file = sidecar\<rparr>
     q k = []"
  by (simp add: search_def)

lemma map_results_known:
  "fst ` set (map_results ext table hits) \<subseteq> fst ` set table"
proof (induction hits)
  case Nil
  then show ?case by simp
next
  case (Cons hit hits)
  obtain key distance where hit: "hit = (key, distance)"
    by (cases hit)
  show ?case
  proof (cases "find (\<lambda>(cid, chunk). chunk_key ext cid = key) table")
    case None
    with Cons hit show ?thesis by simp
  next
    case (Some entry)
    then have "entry \<in> set table"
      by (metis find_Some_iff nth_mem)
    then have "fst entry \<in> fst ` set table"
      by (rule imageI)
    with Some Cons hit show ?thesis
      by (cases entry) auto
  qed
qed

lemma length_hydrate:
  "fst ` set hits \<subseteq> fst ` set table \<Longrightarrow> length (hydrate table hits) = length hits"
proof (induction hits)
  case Nil
  then show ?case by simp
next
  case (Cons hit hits)
  obtain cid similarity where hit: "hit = (cid, similarity)"
    by (cases hit)
  with Cons.prems have "cid \<in> fst ` set table"
    by simp
  then obtain chunk where "map_of table cid = Some chunk"
    by (cases "map_of table cid") (auto simp: map_of_eq_None_iff)
  with Cons hit show ?case by simp
qed

text \<open>
  Claim C10: every pair that \<open>search\<close> returns names a chunk id of the chunk table, so
  \<open>retrieve\<close>, once the query has its vector, returns exactly as many results as
  \<open>search\<close> returned pairs.
\<close>

theorem retrieve_one_result_per_hit:
  assumes "query_embedding (encoder eng) ext query = Inr q"
  shows "fst ` set (search ext (vector_index eng) q k)
           \<subseteq> fst ` set (document_chunks (vector_index eng)) \<and>
         (\<exists>results. retrieve eng ext query k = Inr results \<and>
            length results = length (search ext (vector_index eng) q k))"
proof -
  have known: "fst ` set (search ext (vector_index eng) q k)
           \<subseteq> fst ` set (document_chunks (vector_index eng))"
    using map_results_known[of ext "document_chunks (vector_index eng)"]
    by (simp add: search_def)
  from length_hydrate[OF known] assms show ?thesis
    using known by (simp add: retrieve_def sort_descending_def)
qed

lemma doc1_engine_eq:
  "doc1_engine =
   \<lparr>chunker = \<lparr>chunk_size = 512, overlap = 64\<rparr>,
    encoder = \<lparr>model = None, embedding_dim = 4\<rparr>,
    vector_index =
      \<lparr>index = [(0x59b43708f68e693d, [7 / 15, 1, 7 / 15, 14 / 15])],
       document_chunks =
         [(''doc1_chunk_0'',
           \<lparr>chunk_ident = ''doc1_chunk_0'', chunk_content = ''Python is a language.'',
            chunk_document_id = ''doc1'', chunk_metadata = [(''sentence_count'', MInt 1)],
            chunk_embedding = None, created_at = 0\<rparr>)],
       index_file = Some [(0x59b43708f68e693d, [7 / 15, 1, 7 / 15, 14 / 15])],
       chunks_file =
         Some [\<lparr>chunk_ident = ''doc1_chunk_0'', chunk_content = ''Python is a language.'',
                chunk_document_id = ''doc1'', chunk_metadata = [(''sentence_count'', MInt 1)],
                chunk_embedding = None, created_at = 0\<rparr>]\<rparr>,
    context_manager = \<lparr>max_tokens = 4096, tokenizer = None\<rparr>,
    documents = [(''doc1'', ''Python is a language.'')]\<rparr>"
proof -
  have c: "chunk_text \<lparr>chunk_size = 512, overlap = 64\<rparr> plain_externals
             ''Python is a language.'' ''doc1''
     = [\<lparr>chunk_ident = ''doc1_chunk_0'', chunk_content = ''Python is a language.'',
            chunk_document_id = ''doc1'', chunk_metadata = [(''sentence_count'', MInt 1)],
            chunk_embedding = None, created_at = 0\<rparr>]"
    by (simp add: chunk_text_def plain_externals_def append_chunk_def Let_def strip_python
        str_nat.simps digit_char_def)
  have e: "fallback_encode plain_externals 4 [''Python is a language.'']
             = [[7 / 15, 1, 7 / 15, 14 / 15]]"
    by (simp add: fallback_encode_def fill_embedding_def length_hex_digits hex_digits_nth
        plain_externals_def md5_table_def upt_rec replicate_4)
  have k: "chunk_key plain_externals ''doc1_chunk_0'' = 0x59b43708f68e693d"
    by (simp add: chunk_key_def plain_externals_def md5_table_def)
  have w: "disk_writable plain_externals"
    by (simp add: plain_externals_def)
  show ?thesis
    unfolding doc1_engine_def
    by (simp add: ingest_document_def Let_def is_code_python RAGEngine_init_def c e k w
        encode_def add_chunk_def save_def USearchIndex_init_def)
qed

theorem retrieve_one_result_per_hit_witness:
  "query_embedding (encoder doc1_engine) plain_externals ''language''
     = Inr [8 / 15, 1 / 3, 1 / 15, 2 / 15]
   \<and> search plain_externals (vector_index doc1_engine) [8 / 15, 1 / 3, 1 / 15, 2 / 15] 5
     = [(''doc1_chunk_0'', 15 / 44)]
   \<and> fst ` set (search plain_externals (vector_index doc1_engine)
                  [8 / 15, 1 / 3, 1 / 15, 2 / 15] 5)
       \<subseteq> fst ` set (document_chunks (vector_index doc1_engine))
   \<and> (\<exists>results. retrieve doc1_engine plain_externals ''language'' 5 = Inr results \<and>
         length results
           = length (search plain_externals (vector_index doc1_engine)
                       [8 / 15, 1 / 3, 1 / 15, 2 / 15] 5))"
proof -
  have enc: "encoder doc1_engine = \<lparr>model = None, embedding_dim = 4\<rparr>"
    unfolding doc1_engine_eq by simp
  have vi: "index (vector_index doc1_engine)
              = [(0x59b43708f68e693d, [7 / 15, 1, 7 / 15, 14 / 15])]"
    "document_chunks (vector_index doc1_engine) =
         [(''doc1_chunk_0'',
           \<lparr>chunk_ident = ''doc1_chunk_0'', chunk_content = ''Python is a language.'',
            chunk_document_id = ''doc1'', chunk_metadata = [(''sentence_count'', MInt 1)],
            chunk_embedding = None, created_at = 0\<rparr>)]"
    unfolding doc1_engine_eq by simp_all
  have q: "query_embedding (encoder doc1_engine) plain_externals ''language''
     = Inr [8 / 15, 1 / 3, 1 / 15, 2 / 15]"
    by (simp add: enc query_embedding_def encode_def
        fallback_encode_def fill_embedding_def length_hex_digits hex_digits_nth
        plain_externals_def md5_table_def upt_rec replicate_4)
  have k: "chunk_key plain_externals ''doc1_chunk_0'' = 0x59b43708f68e693d"
    by (simp add: chunk_key_def plain_externals_def md5_table_def)
  have u: "usearch_search plain_externals = scan_search"
    by (simp add: plain_externals_def)
  have s: "search plain_externals (vector_index doc1_engine) [8 / 15, 1 / 3, 1 / 15, 2 / 15] 5
     = [(''doc1_chunk_0'', 15 / 44)]"
    by (simp add: vi search_def k u scan_search_def)
  from retrieve_one_result_per_hit[OF q, of 5] q s show ?thesis
    by simp
qed

end
